theory Spec2Isabelle
  imports Complex_Main
begin

section \<open>The platform: JavaScript numbers\<close>

text \<open>
  \<^verbatim>\<open>script.js\<close> keeps its operands as strings and converts them with the built-ins
  \<^verbatim>\<open>parseFloat\<close> and \<^verbatim>\<open>Number.prototype.toString\<close>. A Number is an IEEE 754
  binary64 value. It is modelled by its exact value: a finite Number is the rational it
  denotes, and every operation rounds its exact result to the nearest binary64 value (ties
  to even), overflowing to an infinity. The two zeros are one value \<open>Fin 0\<close>: the program
  cannot tell them apart (\<^verbatim>\<open>-0 === 0\<close> holds, \<^verbatim>\<open>(-0).toString()\<close> is \<^verbatim>\<open>"0"\<close>, and
  the only division is guarded against a zero divisor). The built-ins are written after
  the ECMAScript specification: they are the platform's, not the repository's.
\<close>

datatype jsnum = NaN | PosInf | NegInf | Fin rat

definition ipow :: "rat \<Rightarrow> int \<Rightarrow> rat" where
  "ipow b e = (if 0 \<le> e then b ^ nat e else 1 / b ^ nat (- e))"

function ndigits :: "int \<Rightarrow> int \<Rightarrow> nat" where
  \<comment> \<open>the number of digits of \<open>n\<close> in base \<open>b\<close>\<close>
  "ndigits b n = (if n \<le> 0 \<or> b < 2 then 0 else Suc (ndigits b (n div b)))"
  by pat_completeness auto
termination
  by (relation "measure (\<lambda>(b, n). nat n)") (auto intro: int_div_less_self)

declare ndigits.simps [simp del]

definition ilog :: "int \<Rightarrow> rat \<Rightarrow> int" where
  \<comment> \<open>for \<open>0 < q\<close>: the greatest \<open>e\<close> with \<open>b ^ e \<le> q\<close>\<close>
  "ilog b q =
     (let (a, c) = quotient_of q;
          e0 = int (ndigits b a) - int (ndigits b c)
      in if ipow (of_int b) e0 \<le> q then e0 else e0 - 1)"

definition round_half_even :: "rat \<Rightarrow> int" where
  "round_half_even x =
     (let f = \<lfloor>x\<rfloor>; d = x - of_int f
      in if d < 1 / 2 then f
         else if 1 / 2 < d then f + 1
         else if even f then f else f + 1)"

definition to_double :: "rat \<Rightarrow> jsnum" where
  \<comment> \<open>round to nearest binary64, ties to even: 53 significant bits, exponents from
      -1022 to 1023, above them an infinity\<close>
  "to_double q =
     (if q = 0 then Fin 0
      else
        let a = \<bar>q\<bar>;
            e = max (ilog 2 a) (- 1022);
            u = ipow 2 (e - 52);
            m = round_half_even (a / u)
        in if 1024 \<le> e \<or> (e = 1023 \<and> m = 2 ^ 53) then (if 0 < q then PosInf else NegInf)
           else Fin (if 0 < q then of_int m * u else - (of_int m * u)))"

definition js_isNaN :: "jsnum \<Rightarrow> bool" where
  "js_isNaN x = (x = NaN)"

fun js_neg :: "jsnum \<Rightarrow> jsnum" where
  "js_neg NaN = NaN"
| "js_neg PosInf = NegInf"
| "js_neg NegInf = PosInf"
| "js_neg (Fin a) = Fin (- a)"

fun js_abs :: "jsnum \<Rightarrow> jsnum" where
  "js_abs NaN = NaN"
| "js_abs PosInf = PosInf"
| "js_abs NegInf = PosInf"
| "js_abs (Fin a) = Fin \<bar>a\<bar>"

fun js_add :: "jsnum \<Rightarrow> jsnum \<Rightarrow> jsnum" where
  "js_add NaN _ = NaN"
| "js_add _ NaN = NaN"
| "js_add PosInf NegInf = NaN"
| "js_add NegInf PosInf = NaN"
| "js_add PosInf _ = PosInf"
| "js_add NegInf _ = NegInf"
| "js_add _ PosInf = PosInf"
| "js_add _ NegInf = NegInf"
| "js_add (Fin a) (Fin b) = to_double (a + b)"

definition js_sub :: "jsnum \<Rightarrow> jsnum \<Rightarrow> jsnum" where
  "js_sub x y = js_add x (js_neg y)"

fun js_sign_neg :: "jsnum \<Rightarrow> bool" where
  "js_sign_neg NegInf = True"
| "js_sign_neg (Fin a) = (a < 0)"
| "js_sign_neg _ = False"

fun js_mul :: "jsnum \<Rightarrow> jsnum \<Rightarrow> jsnum" where
  "js_mul NaN _ = NaN"
| "js_mul _ NaN = NaN"
| "js_mul (Fin a) (Fin b) = to_double (a * b)"
| "js_mul x y =
     (if x = Fin 0 \<or> y = Fin 0 then NaN
      else if js_sign_neg x = js_sign_neg y then PosInf else NegInf)"

fun js_is_inf :: "jsnum \<Rightarrow> bool" where
  "js_is_inf PosInf = True"
| "js_is_inf NegInf = True"
| "js_is_inf _ = False"

fun js_div :: "jsnum \<Rightarrow> jsnum \<Rightarrow> jsnum" where
  "js_div NaN _ = NaN"
| "js_div _ NaN = NaN"
| "js_div (Fin a) (Fin b) =
     (if b = 0 then (if a = 0 then NaN else if 0 < a then PosInf else NegInf)
      else to_double (a / b))"
| "js_div (Fin a) y = Fin 0"
| "js_div x y =
     (if js_is_inf y then NaN
      else if js_sign_neg x = js_sign_neg y then PosInf else NegInf)"

fun js_gt :: "jsnum \<Rightarrow> jsnum \<Rightarrow> bool" where
  "js_gt NaN _ = False"
| "js_gt _ NaN = False"
| "js_gt PosInf y = (y \<noteq> PosInf)"
| "js_gt NegInf _ = False"
| "js_gt (Fin a) PosInf = False"
| "js_gt (Fin a) NegInf = True"
| "js_gt (Fin a) (Fin b) = (b < a)"

definition js_lt :: "jsnum \<Rightarrow> jsnum \<Rightarrow> bool" where
  "js_lt x y = js_gt y x"


section \<open>The platform: strings and conversions\<close>

text \<open>
  A string is the list of the bytes of its UTF-8 encoding, as the source file stores its
  literals. Every operand the calculator builds is ASCII, where bytes and UTF-16 code
  units coincide; the operator symbols beyond ASCII are compared for equality only.
\<close>

definition is_digit :: "char \<Rightarrow> bool" where
  "is_digit c = (c \<in> set ''0123456789'')"

definition digit_val :: "char \<Rightarrow> int" where
  "digit_val c = of_char c - 48"

definition digits_val :: "string \<Rightarrow> int" where
  "digits_val ds = foldl (\<lambda>acc c. 10 * acc + digit_val c) 0 ds"

definition ws_len :: "string \<Rightarrow> nat" where
  \<comment> \<open>the number of bytes of the white space or line terminator character at the head
      (TAB, LF, VT, FF, CR, SP, U+00A0, U+1680, U+2000..U+200A, U+2028, U+2029, U+202F,
      U+205F, U+3000, U+FEFF), 0 when there is none\<close>
  "ws_len s =
     (case map of_char (take 3 s) :: nat list of
        [] \<Rightarrow> 0
      | b1 # r1 \<Rightarrow>
          if b1 \<in> {9, 10, 11, 12, 13, 32} then 1
          else (case r1 of
              [] \<Rightarrow> 0
            | b2 # r2 \<Rightarrow>
                if b1 = 0xC2 \<and> b2 = 0xA0 then 2
                else (case r2 of
                    [] \<Rightarrow> 0
                  | b3 # _ \<Rightarrow>
                      if (b1 = 0xE1 \<and> b2 = 0x9A \<and> b3 = 0x80)
                         \<or> (b1 = 0xE2 \<and> b2 = 0x80 \<and> 0x80 \<le> b3 \<and> b3 \<le> 0x8A)
                         \<or> (b1 = 0xE2 \<and> b2 = 0x80 \<and> b3 \<in> {0xA8, 0xA9, 0xAF})
                         \<or> (b1 = 0xE2 \<and> b2 = 0x81 \<and> b3 = 0x9F)
                         \<or> (b1 = 0xE3 \<and> b2 = 0x80 \<and> b3 = 0x80)
                         \<or> (b1 = 0xEF \<and> b2 = 0xBB \<and> b3 = 0xBF)
                      then 3 else 0)))"

function skip_ws :: "string \<Rightarrow> string" where
  "skip_ws s = (if ws_len s = 0 \<or> s = [] then s else skip_ws (drop (ws_len s) s))"
  by pat_completeness auto
termination
  by (relation "measure length") auto

declare skip_ws.simps [simp del]

definition take_sign :: "string \<Rightarrow> bool \<times> string" where
  \<comment> \<open>an optional sign: whether it is a minus, and the rest\<close>
  "take_sign s =
     (case s of
        [] \<Rightarrow> (False, s)
      | c # r \<Rightarrow>
          if c = CHR ''-'' then (True, r)
          else if c = CHR ''+'' then (False, r)
          else (False, s))"

definition exponent_part :: "string \<Rightarrow> int" where
  \<comment> \<open>the value of an ExponentPart at the head (\<open>e\<close> or \<open>E\<close>, an optional sign, digits),
      0 when there is none\<close>
  "exponent_part s =
     (case s of
        [] \<Rightarrow> 0
      | c # r \<Rightarrow>
          if c = CHR ''e'' \<or> c = CHR ''E'' then
            (let (neg, r') = take_sign r; ds = takeWhile is_digit r'
             in if ds = [] then 0
                else if neg then - digits_val ds else digits_val ds)
          else 0)"

definition parseFloat :: "string \<Rightarrow> jsnum" where
  \<comment> \<open>the longest prefix, after leading white space, that is a StrDecimalLiteral:
      a sign, then \<open>Infinity\<close> or digits with an optional fraction and exponent\<close>
  "parseFloat inputString =
     (let (neg, u) = take_sign (skip_ws inputString)
      in if take 8 u = ''Infinity'' then (if neg then NegInf else PosInf)
         else
           let ip = takeWhile is_digit u;
               r1 = dropWhile is_digit u;
               (fp, r2) =
                 (case r1 of
                    [] \<Rightarrow> ([], r1)
                  | c # r \<Rightarrow>
                      if c = CHR ''.'' then (takeWhile is_digit r, dropWhile is_digit r)
                      else ([], r1))
           in if ip = [] \<and> fp = [] then NaN
              else
                let mv = of_int (digits_val (ip @ fp))
                           * ipow 10 (exponent_part r2 - int (length fp))
                in to_double (if neg then - mv else mv))"

definition digit_char :: "int \<Rightarrow> char" where
  \<comment> \<open>the character of a digit; applied below to \<open>d < 10\<close> only, where the index is
      in range\<close>
  "digit_char d = ''0123456789'' ! nat d"

function int_digits :: "int \<Rightarrow> string" where
  \<comment> \<open>the decimal digits of \<open>n\<close>, for \<open>0 \<le> n\<close>\<close>
  "int_digits n =
     (if n < 10 then [digit_char n] else int_digits (n div 10) @ [digit_char (n mod 10)])"
  by pat_completeness auto
termination
  by (relation "measure nat") auto

declare int_digits.simps [simp del]

fun shortest :: "rat \<Rightarrow> int \<Rightarrow> nat \<Rightarrow> nat \<Rightarrow> int \<times> int" where
  \<comment> \<open>Number::toString, step 5: the digits \<open>s\<close> and the exponent \<open>n\<close> with the fewest digits
      \<open>k\<close> such that \<open>s * 10 ^ (n - k)\<close> rounds to \<open>x\<close>, the closest to \<open>x\<close> among them;
      17 digits always suffice\<close>
  "shortest x n k 0 = (round_half_even (x / ipow 10 (n - int k)), n)"
| "shortest x n k (Suc fuel) =
     (let u = ipow 10 (n - int k);
          lo = \<lfloor>x / u\<rfloor>;
          hi = lo + 1;
          oklo = (to_double (of_int lo * u) = Fin x);
          okhi = (to_double (of_int hi * u) = Fin x)
      in if oklo \<and> (\<not> okhi \<or> x - of_int lo * u \<le> of_int hi * u - x) then (lo, n)
         else if okhi then (if hi = 10 ^ k then (10 ^ (k - 1), n + 1) else (hi, n))
         else shortest x n (k + 1) fuel)"

definition pos_to_string :: "rat \<Rightarrow> string" where
  \<comment> \<open>Number::toString, steps 5 to 11, for \<open>0 < x\<close>\<close>
  "pos_to_string x =
     (let (s, n) = shortest x (ilog 10 x + 1) 1 16;
          ds = int_digits s;
          k = int (length ds)
      in if k \<le> n \<and> n \<le> 21 then ds @ replicate (nat (n - k)) CHR ''0''
         else if 0 < n \<and> n \<le> 21 then take (nat n) ds @ ''.'' @ drop (nat n) ds
         else if - 6 < n \<and> n \<le> 0 then ''0.'' @ replicate (nat (- n)) CHR ''0'' @ ds
         else
           let es = (if n - 1 < 0 then ''-'' else ''+'') @ int_digits \<bar>n - 1\<bar>
           in if k = 1 then ds @ ''e'' @ es
              else take 1 ds @ ''.'' @ drop 1 ds @ ''e'' @ es)"

fun toString :: "jsnum \<Rightarrow> string" where
  "toString NaN = ''NaN''"
| "toString PosInf = ''Infinity''"
| "toString NegInf = ''-Infinity''"
| "toString (Fin x) =
     (if x = 0 then ''0''
      else if x < 0 then ''-'' @ pos_to_string (- x)
      else pos_to_string x)"


section \<open>The calculator state (\<^verbatim>\<open>CalculatorState\<close>)\<close>

record CalculatorState =
  currentOperand :: string
  previousOperand :: string
  operation :: "string option"
  shouldResetScreen :: bool

definition init_state :: CalculatorState where
  "init_state =
     \<lparr>currentOperand = ''0'', previousOperand = '''', operation = None,
      shouldResetScreen = False\<rparr>"

definition reset :: "CalculatorState \<Rightarrow> CalculatorState" where
  "reset st =
     st\<lparr>currentOperand := ''0'', previousOperand := '''', operation := None,
        shouldResetScreen := False\<rparr>"


section \<open>The display (\<^verbatim>\<open>DisplayController.formatNumber\<close>)\<close>

text \<open>
  \<^verbatim>\<open>formatNumber\<close> ends in one of two rendering built-ins,
  \<^verbatim>\<open>toExponential(6)\<close> or \<^verbatim>\<open>toLocaleString('en-US', {maximumFractionDigits: 10})\<close>.
  The model returns which one renders the number, with its argument.
\<close>

datatype display_text =
    Literal string
  | Exponential jsnum nat
  | LocaleString jsnum nat

definition formatNumber :: "string \<Rightarrow> display_text" where
  "formatNumber number =
     (if number = '''' then Literal ''''
      else
        let floatNumber = parseFloat number
        in if js_isNaN floatNumber then Literal ''0''
           else if js_gt (js_abs floatNumber) (Fin 999999999999)
                   \<or> (js_lt (js_abs floatNumber) (to_double (1 / 1000000))
                       \<and> floatNumber \<noteq> Fin 0)
             then Exponential floatNumber 6
           else LocaleString floatNumber 10)"


section \<open>The calculation engine (\<^verbatim>\<open>CalculationEngine\<close>)\<close>

text \<open>
  The four operator symbols of the specification are the case labels of the \<^verbatim>\<open>switch\<close> in
  \<^verbatim>\<open>compute\<close>: the plus sign, and the labels of the subtraction, the multiplication and the
  division branch. The model takes them byte for byte from \<^verbatim>\<open>script.js\<close>, which stores the
  three labels beyond ASCII in a doubly encoded form; the key map of the event listeners
  selects the operator buttons by the same strings. Nothing below depends on the bytes:
  the symbols are only compared for equality.
\<close>

definition op_plus :: string where
  "op_plus = ''+''"

definition op_minus :: string where
  "op_minus = [CHR 0xC3, CHR 0xA2, CHR 0xCB, CHR 0x86, CHR 0xE2, CHR 0x80, CHR 0x99]"

definition op_times :: string where
  "op_times = [CHR 0xC3, CHR 0x83, CHR 0xE2, CHR 0x80, CHR 0x94]"

definition op_divide :: string where
  "op_divide = [CHR 0xC3, CHR 0x83, CHR 0xC2, CHR 0xB7]"

text \<open>
  \<^verbatim>\<open>alert\<close> is the only effect of \<^verbatim>\<open>compute\<close>: the model returns the messages alerted
  next to the result.
\<close>

definition compute :: "string \<Rightarrow> string \<Rightarrow> string \<Rightarrow> jsnum \<times> string list" where
  "compute prev current operator =
     (let prevNum = parseFloat prev;
          currentNum = parseFloat current
      in if js_isNaN prevNum \<or> js_isNaN currentNum then (Fin 0, [])
         else if operator = op_plus then (js_add prevNum currentNum, [])
         else if operator = op_minus then (js_sub prevNum currentNum, [])
         else if operator = op_times then (js_mul prevNum currentNum, [])
         else if operator = op_divide then
           (if currentNum = Fin 0 then (Fin 0, [''Error: Cannot divide by zero''])
            else (js_div prevNum currentNum, []))
         else (currentNum, []))"

definition calculate :: "CalculatorState \<Rightarrow> CalculatorState \<times> string list" where
  "calculate st =
     (case operation st of
        None \<Rightarrow> (st, [])
      | Some operator \<Rightarrow>
          if previousOperand st = '''' then (st, [])
          else
            let (result, alerts) = compute (previousOperand st) (currentOperand st) operator
            in (st\<lparr>currentOperand := toString result, operation := None,
                    previousOperand := '''', shouldResetScreen := True\<rparr>,
                alerts))"


section \<open>The input handler (\<^verbatim>\<open>InputHandler\<close>)\<close>

definition appendNumber :: "string \<Rightarrow> CalculatorState \<Rightarrow> CalculatorState" where
  "appendNumber number st =
     (let st1 = (if shouldResetScreen st
                 then st\<lparr>currentOperand := ''0'', shouldResetScreen := False\<rparr>
                 else st);
          current = currentOperand st1
      in if number = ''.'' \<and> CHR ''.'' \<in> set current then st1
         else if current = ''0'' \<and> number \<noteq> ''.'' then st1\<lparr>currentOperand := number\<rparr>
         else st1\<lparr>currentOperand := current @ number\<rparr>)"

definition setOperation :: "string \<Rightarrow> CalculatorState \<Rightarrow> CalculatorState \<times> string list" where
  "setOperation operator st =
     (if currentOperand st = '''' then (st, [])
      else
        let (st1, alerts) =
              (if previousOperand st \<noteq> '''' \<and> operation st \<noteq> None
                  \<and> \<not> shouldResetScreen st
               then calculate st else (st, []))
        in (st1\<lparr>operation := Some operator, previousOperand := currentOperand st1,
                shouldResetScreen := True\<rparr>,
            alerts))"

definition clear :: "CalculatorState \<Rightarrow> CalculatorState" where
  "clear st = reset st"

definition backspace :: "CalculatorState \<Rightarrow> CalculatorState" where
  "backspace st =
     (if shouldResetScreen st then clear st
      else if 1 < length (currentOperand st)
        then st\<lparr>currentOperand := butlast (currentOperand st)\<rparr>
      else st\<lparr>currentOperand := ''0''\<rparr>)"

definition equals :: "CalculatorState \<Rightarrow> CalculatorState \<times> string list" where
  "equals st = calculate st"


section \<open>Runs of the calculator\<close>

text \<open>
  The event listeners call one entry point of \<^verbatim>\<open>InputHandler\<close> per click or key press,
  each running to completion. A run is a list of such events, applied in order to the
  state the module starts with. A digit button carries one of eleven tokens.
\<close>

datatype event = Digit string | Operator string | Equals | Clear | Backspace

fun step :: "event \<Rightarrow> CalculatorState \<Rightarrow> CalculatorState" where
  "step (Digit number) st = appendNumber number st"
| "step (Operator operator) st = fst (setOperation operator st)"
| "step Equals st = fst (equals st)"
| "step Clear st = clear st"
| "step Backspace st = backspace st"

definition run_from :: "CalculatorState \<Rightarrow> event list \<Rightarrow> CalculatorState" where
  "run_from st evs = foldl (\<lambda>s e. step e s) st evs"

definition run :: "event list \<Rightarrow> CalculatorState" where
  "run evs = run_from init_state evs"

definition tokens :: "string list" where
  \<comment> \<open>the one-character strings of the digit buttons and of the decimal point\<close>
  "tokens = map (\<lambda>c. [c]) ''0123456789.''"

fun valid_event :: "event \<Rightarrow> bool" where
  "valid_event (Digit number) = (number \<in> set tokens)"
| "valid_event _ = True"

definition dots :: "string \<Rightarrow> nat" where
  \<comment> \<open>how many times \<open>.\<close> occurs\<close>
  "dots s = length (filter (\<lambda>c. c = CHR ''.'') s)"

definition count_points :: "string list \<Rightarrow> nat" where
  \<comment> \<open>how many of the tokens are the decimal point\<close>
  "count_points ts = length (filter (\<lambda>t. t = ''.'') ts)"

definition pending_iff :: "CalculatorState \<Rightarrow> bool" where
  \<comment> \<open>an operation is stored exactly when a previous operand is\<close>
  "pending_iff st = ((operation st \<noteq> None) = (previousOperand st \<noteq> []))"


section \<open>What the specification says, for comparison\<close>

definition spec_exponential :: "rat \<Rightarrow> bool" where
  \<comment> \<open>the specification's condition for exponential notation: the absolute value exceeds
      1e12, or is nonzero and smaller than 1e-6\<close>
  "spec_exponential x = (10 ^ 12 < \<bar>x\<bar> \<or> (x \<noteq> 0 \<and> \<bar>x\<bar> < 1 / 10 ^ 6))"

definition spec_appendDigit :: "string \<Rightarrow> string \<Rightarrow> string" where
  \<comment> \<open>the specification's rule for a token that is not rejected: when the operand is
      \<open>0\<close> and the token is not \<open>.\<close>, the token replaces the operand; otherwise it is
      appended\<close>
  "spec_appendDigit current token =
     (if current = ''0'' \<and> token \<noteq> ''.'' then token else current @ token)"

definition spec_entered :: "string list \<Rightarrow> string" where
  \<comment> \<open>the concatenation of the tokens under that rule, from the operand \<open>0\<close>: leading
      \<open>0\<close> tokens are replaced by what follows them, and a leading \<open>.\<close> keeps the \<open>0\<close>\<close>
  "spec_entered ts =
     (let c = dropWhile (\<lambda>t. t = ''0'') ts
      in if c = [] then ''0''
         else if hd c = ''.'' then ''0'' @ concat c
         else concat c)"

definition div_zero_state :: CalculatorState where
  \<comment> \<open>the state after the keys 5, the division key, 0\<close>
  "div_zero_state =
     \<lparr>currentOperand = ''0'', previousOperand = ''5'', operation = Some op_divide,
      shouldResetScreen = False\<rparr>"


section \<open>Facts about the platform functions\<close>

lemma parseFloat_empty: "parseFloat [] = NaN"
  by code_simp

lemma small_threshold: "to_double (1 / 1000000) = Fin (4722366482869645 / 2 ^ 72)"
  by code_simp

lemma digit_char_digit: "d < 10 \<Longrightarrow> is_digit (digit_char d)"
  unfolding digit_char_def is_digit_def by (rule nth_mem) simp

lemma int_digits_digits: "\<forall>c \<in> set (int_digits n). is_digit c"
proof (induction n rule: int_digits.induct)
  case (1 n)
  show ?case
  proof (cases "n < 10")
    case True
    then show ?thesis by (subst int_digits.simps) (simp add: digit_char_digit)
  next
    case False
    have "n mod 10 < 10" by simp
    with False 1 show ?thesis
      by (subst int_digits.simps) (auto simp: digit_char_digit)
  qed
qed

lemma int_digits_nonempty: "int_digits n \<noteq> []"
  by (subst int_digits.simps) simp

lemma dots_append: "dots (xs @ ys) = dots xs + dots ys"
  by (simp add: dots_def)

lemma dots_Nil: "dots [] = 0"
  by (simp add: dots_def)

lemma dots_Cons: "dots (c # s) = (if c = CHR ''.'' then 1 else 0) + dots s"
  by (simp add: dots_def)

lemma is_digit_not_dot: "is_digit c \<Longrightarrow> c \<noteq> CHR ''.''"
  by (auto simp: is_digit_def)

lemma dots_digits: "\<forall>c \<in> set ds. is_digit c \<Longrightarrow> dots ds = 0"
  by (induction ds) (simp_all add: dots_Nil dots_Cons is_digit_not_dot)

lemma dots_int_digits: "dots (int_digits n) = 0"
  by (rule dots_digits) (rule int_digits_digits)

lemma dots_take: "dots ds = 0 \<Longrightarrow> dots (take n ds) = 0"
  by (auto simp: dots_def filter_empty_conv dest: in_set_takeD)

lemma dots_drop: "dots ds = 0 \<Longrightarrow> dots (drop n ds) = 0"
  by (auto simp: dots_def filter_empty_conv dest: in_set_dropD)

lemma dots_replicate: "dots (replicate n CHR ''0'') = 0"
  by (simp add: dots_def)

lemma dots_zero_iff: "(dots s = 0) = (CHR ''.'' \<notin> set s)"
  by (induction s) (auto simp: dots_Nil dots_Cons)

lemma dots_butlast: "dots (butlast s) \<le> dots s"
  by (induction s) (auto simp: dots_Nil dots_Cons)

lemma pos_to_string_dots: "dots (pos_to_string x) \<le> 1"
  by (simp add: pos_to_string_def Let_def dots_append dots_int_digits dots_take dots_drop
      dots_replicate dots_Nil dots_Cons split: prod.splits)

lemma pos_to_string_nonempty: "pos_to_string x \<noteq> []"
  by (simp add: pos_to_string_def Let_def int_digits_nonempty split: prod.splits)

lemma toString_dots: "dots (toString v) \<le> 1"
  using pos_to_string_dots by (cases v) (simp_all add: dots_append dots_Cons dots_Nil)

lemma toString_nonempty: "toString v \<noteq> []"
  by (cases v) (simp_all add: pos_to_string_nonempty)


section \<open>Facts about the entry points\<close>

lemma reset_init: "reset st = init_state"
  by (simp add: reset_def init_state_def)

lemma tokens_single: "number \<in> set tokens \<Longrightarrow> \<exists>c. number = [c]"
  by (auto simp: tokens_def)

lemma tokens_dots:
  assumes "number \<in> set tokens"
  shows "number \<noteq> []" and "dots number \<le> 1" and "number \<noteq> ''.'' \<Longrightarrow> dots number = 0"
  using tokens_single [OF assms] by (auto simp: dots_Cons dots_Nil split: if_splits)

lemma calculate_cases:
  "calculate st = (st, [])
   \<or> (\<exists>v a. operation st \<noteq> None \<and> previousOperand st \<noteq> []
         \<and> calculate st = (st\<lparr>currentOperand := toString v, operation := None,
               previousOperand := [], shouldResetScreen := True\<rparr>, a))"
  by (auto simp: calculate_def Let_def split: option.splits prod.splits)

lemma run_from_invariant:
  assumes "P st"
    and "\<And>e s. valid_event e \<Longrightarrow> P s \<Longrightarrow> P (step e s)"
    and "\<forall>e \<in> set evs. valid_event e"
  shows "P (run_from st evs)"
  using assms(1,3)
proof (induction evs arbitrary: st)
  case Nil
  then show ?case by (simp add: run_from_def)
next
  case (Cons e evs)
  from Cons.prems have "P (step e st)" by (simp add: assms(2))
  with Cons.IH [of "step e st"] Cons.prems show ?case by (simp add: run_from_def)
qed

lemma step_pending_iff: "pending_iff s \<Longrightarrow> pending_iff (step e s)"
proof (cases e)
  case (Digit number)
  assume "pending_iff s"
  then show ?thesis using Digit by (auto simp: pending_iff_def appendNumber_def Let_def)
next
  case (Operator operator)
  assume p: "pending_iff s"
  from calculate_cases [of s] show ?thesis
    using Operator p toString_nonempty
    by (auto simp: pending_iff_def setOperation_def Let_def split: prod.splits)
next
  case Equals
  assume p: "pending_iff s"
  from calculate_cases [of s] show ?thesis
    using Equals p by (auto simp: pending_iff_def equals_def)
next
  case Clear
  then show ?thesis by (simp add: pending_iff_def clear_def reset_def)
next
  case Backspace
  assume "pending_iff s"
  then show ?thesis using Backspace
    by (auto simp: pending_iff_def backspace_def clear_def reset_def)
qed


lemma step_dots:
  "valid_event e \<Longrightarrow> dots (currentOperand s) \<le> 1 \<Longrightarrow> dots (currentOperand (step e s)) \<le> 1"
proof (cases e)
  case (Digit number)
  assume v: "valid_event e" and d: "dots (currentOperand s) \<le> 1"
  from v Digit have t: "number \<in> set tokens" by simp
  show ?thesis
    using Digit d tokens_dots(2) [OF t] tokens_dots(3) [OF t]
    by (auto simp: appendNumber_def Let_def dots_append dots_Nil dots_Cons
        dots_zero_iff [symmetric])
next
  case (Operator operator)
  assume "dots (currentOperand s) \<le> 1"
  with calculate_cases [of s] show ?thesis
    using Operator toString_dots
    by (auto simp: setOperation_def Let_def split: prod.splits)
next
  case Equals
  assume "dots (currentOperand s) \<le> 1"
  with calculate_cases [of s] show ?thesis
    using Equals toString_dots by (auto simp: equals_def)
next
  case Clear
  then show ?thesis by (simp add: clear_def reset_def dots_Nil dots_Cons)
next
  case Backspace
  assume "dots (currentOperand s) \<le> 1"
  then show ?thesis using Backspace dots_butlast [of "currentOperand s"]
    by (auto simp: backspace_def clear_def reset_def dots_Nil dots_Cons)
qed

lemma appendNumber_spec:
  assumes "number \<in> set tokens"
    and "\<not> shouldResetScreen st"
    and "dots (currentOperand st) + count_points (number # ts) \<le> 1"
  shows "currentOperand (appendNumber number st) = spec_appendDigit (currentOperand st) number"
    and "\<not> shouldResetScreen (appendNumber number st)"
    and "dots (currentOperand (appendNumber number st)) + count_points ts \<le> 1"
  using assms tokens_dots(3) [OF assms(1)]
  by (auto simp: appendNumber_def spec_appendDigit_def Let_def count_points_def dots_append
      dots_Nil dots_Cons dots_zero_iff [symmetric] split: if_splits)

lemma run_from_digits:
  assumes "set ts \<subseteq> set tokens"
    and "\<not> shouldResetScreen st"
    and "dots (currentOperand st) + count_points ts \<le> 1"
  shows "currentOperand (run_from st (map Digit ts)) = foldl spec_appendDigit (currentOperand st) ts"
  using assms
proof (induction ts arbitrary: st)
  case Nil
  then show ?case by (simp add: run_from_def)
next
  case (Cons t ts)
  from Cons.prems(1) have t: "t \<in> set tokens" and ts: "set ts \<subseteq> set tokens" by auto
  note a = appendNumber_spec [OF t Cons.prems(2) Cons.prems(3)]
  have "run_from st (map Digit (t # ts)) = run_from (appendNumber t st) (map Digit ts)"
    by (simp add: run_from_def)
  with Cons.IH [OF ts a(2) a(3)] a(1) show ?case by simp
qed

lemma spec_fold_grows:
  assumes "\<forall>t \<in> set ts. t \<noteq> []"
    and "2 \<le> length cur"
  shows "foldl spec_appendDigit cur ts = cur @ concat ts"
  using assms
proof (induction ts arbitrary: cur)
  case Nil
  then show ?case by simp
next
  case (Cons t ts)
  from Cons.prems have c: "cur \<noteq> ''0''" by auto
  from Cons.prems have "2 \<le> length (cur @ t)" by simp
  with Cons.IH [of "cur @ t"] Cons.prems(1) c show ?case
    by (simp add: spec_appendDigit_def)
qed

lemma spec_fold_digit:
  assumes "\<forall>t \<in> set ts. t \<noteq> []"
    and "cur \<noteq> ''0''" and "cur \<noteq> []"
  shows "foldl spec_appendDigit cur ts = cur @ concat ts"
proof (cases ts)
  case Nil
  then show ?thesis by simp
next
  case (Cons t ts')
  with assms have "2 \<le> length (cur @ t)"
    by (cases cur; cases t) auto
  with spec_fold_grows [of ts' "cur @ t"] assms Cons show ?thesis
    by (simp add: spec_appendDigit_def)
qed

lemma spec_fold_closed_form:
  assumes "\<forall>t \<in> set ts. t \<noteq> []"
  shows "foldl spec_appendDigit ''0'' ts = spec_entered ts"
  using assms
proof (induction ts)
  case Nil
  then show ?case by (simp add: spec_entered_def)
next
  case (Cons t ts)
  from Cons.prems have ne: "\<forall>t \<in> set ts. t \<noteq> []" and t: "t \<noteq> []" by auto
  show ?case
  proof (cases "t = ''0''")
    case True
    then have "spec_appendDigit ''0'' t = ''0''" by (simp add: spec_appendDigit_def)
    then have "foldl spec_appendDigit ''0'' (t # ts) = foldl spec_appendDigit ''0'' ts"
      by simp
    with Cons.IH [OF ne] True show ?thesis by (simp add: spec_entered_def)
  next
    case False
    note nz = this
    show ?thesis
    proof (cases "t = ''.''")
      case True
      then have "spec_appendDigit ''0'' t = ''0.''" by (simp add: spec_appendDigit_def)
      then have "foldl spec_appendDigit ''0'' (t # ts) = foldl spec_appendDigit ''0.'' ts"
        by simp
      also have "\<dots> = ''0.'' @ concat ts"
        using ne by (rule spec_fold_grows) simp
      finally show ?thesis using True by (simp add: spec_entered_def)
    next
      case False
      then have "spec_appendDigit ''0'' t = t" by (simp add: spec_appendDigit_def)
      then have "foldl spec_appendDigit ''0'' (t # ts) = foldl spec_appendDigit t ts"
        by simp
      also have "\<dots> = t @ concat ts"
        using ne nz t by (rule spec_fold_digit)
      finally show ?thesis using False nz by (simp add: spec_entered_def)
    qed
  qed
qed


section \<open>Division by zero\<close>

text \<open>
  C1, as the specification states it: when \<^verbatim>\<open>calculate()\<close> runs with a pending division
  whose current operand parses to exactly 0, the division by zero is signalled and the four
  fields of the state stay as they were. The code does signal it, but \<^verbatim>\<open>compute\<close> returns 0
  after the alert and \<^verbatim>\<open>calculate\<close> has no way to tell that 0 from a result: it stores it.
  After the keys 5, division, 0 the state changes.
\<close>

theorem calculate_div_zero_counterexample:
  "run [Digit ''5'', Operator op_divide, Digit ''0''] = div_zero_state
   \<and> operation div_zero_state = Some op_divide
   \<and> parseFloat (currentOperand div_zero_state) = Fin 0
   \<and> snd (calculate div_zero_state) = [''Error: Cannot divide by zero'']
   \<and> fst (calculate div_zero_state) \<noteq> div_zero_state"
  by code_simp

text \<open>
  C1, amended: when \<^verbatim>\<open>calculate()\<close> runs with a pending division, a previous operand that
  parses as a number and a current operand that parses to exactly 0, the division by zero is
  alerted once and the result 0 is committed like any other result: \<^verbatim>\<open>currentOperand\<close>
  becomes \<^verbatim>\<open>"0"\<close>, \<^verbatim>\<open>previousOperand\<close> and \<^verbatim>\<open>operation\<close> are cleared and the reset flag
  is set.
\<close>

theorem calculate_div_zero_commits:
  assumes "operation st = Some op_divide"
    and "previousOperand st \<noteq> ''''"
    and "parseFloat (previousOperand st) \<noteq> NaN"
    and "parseFloat (currentOperand st) = Fin 0"
  shows "calculate st =
           (st\<lparr>currentOperand := ''0'', operation := None, previousOperand := '''',
               shouldResetScreen := True\<rparr>,
            [''Error: Cannot divide by zero''])"
  using assms
  by (simp add: calculate_def compute_def Let_def js_isNaN_def op_divide_def op_plus_def
      op_minus_def op_times_def)

theorem calculate_div_zero_commits_witness:
  "calculate (run [Digit ''8'', Operator op_divide, Digit ''0'', Digit ''.'', Digit ''0''])
     = (\<lparr>currentOperand = ''0'', previousOperand = '''', operation = None,
          shouldResetScreen = True\<rparr>,
        [''Error: Cannot divide by zero''])"
proof -
  have a: "operation (run [Digit ''8'', Operator op_divide, Digit ''0'', Digit ''.'', Digit ''0''])
    = Some op_divide" by code_simp
  have b: "previousOperand (run [Digit ''8'', Operator op_divide, Digit ''0'', Digit ''.'', Digit ''0''])
    \<noteq> ''''" by code_simp
  have c: "parseFloat (previousOperand
    (run [Digit ''8'', Operator op_divide, Digit ''0'', Digit ''.'', Digit ''0''])) \<noteq> NaN"
    by code_simp
  have d: "parseFloat (currentOperand
    (run [Digit ''8'', Operator op_divide, Digit ''0'', Digit ''.'', Digit ''0''])) = Fin 0"
    by code_simp
  have e: "run [Digit ''8'', Operator op_divide, Digit ''0'', Digit ''.'', Digit ''0'']
    = \<lparr>currentOperand = ''0.0'', previousOperand = ''8'', operation = Some op_divide,
       shouldResetScreen = False\<rparr>" by code_simp
  from calculate_div_zero_commits [OF a b c d] show ?thesis by (simp add: e)
qed


section \<open>The threshold of exponential notation\<close>

text \<open>
  C2, as the specification states it: a string that parses to a finite number is rendered
  in exponential notation with 6 fraction digits exactly when its absolute value exceeds
  1e12, or is nonzero and below 1e-6. The code compares with 999999999999, the largest
  integer of twelve digits: the number 1000000000000 does not exceed 1e12 and is rendered
  in exponential notation all the same.
\<close>

theorem formatNumber_counterexample:
  "parseFloat ''1000000000000'' = Fin 1000000000000
   \<and> \<not> spec_exponential 1000000000000
   \<and> formatNumber ''1000000000000'' = Exponential (Fin 1000000000000) 6"
  by code_simp

text \<open>
  C2, amended: a string that parses to a finite number \<open>x\<close> is rendered by
  \<^verbatim>\<open>toExponential(6)\<close> exactly when \<open>\<bar>x\<bar>\<close> exceeds 999999999999, or \<open>x\<close> is nonzero and
  \<open>\<bar>x\<bar>\<close> is below the Number that the literal \<^verbatim>\<open>0.000001\<close> denotes (the binary64 value
  4722366482869645 / 2^72); every other finite \<open>x\<close> is rendered by \<^verbatim>\<open>toLocaleString\<close> with at
  most 10 fraction digits.
\<close>

theorem formatNumber_finite:
  assumes "parseFloat s = Fin x"
  shows "formatNumber s =
           (if 999999999999 < \<bar>x\<bar> \<or> (x \<noteq> 0 \<and> \<bar>x\<bar> < 4722366482869645 / 2 ^ 72)
            then Exponential (Fin x) 6 else LocaleString (Fin x) 10)"
proof -
  have "s \<noteq> []" using assms parseFloat_empty by auto
  then show ?thesis
    using assms by (auto simp: formatNumber_def js_isNaN_def small_threshold js_lt_def Let_def)
qed

theorem formatNumber_finite_witness:
  "parseFloat ''0.0000001'' = Fin (944473296573929 / 2 ^ 73)
   \<and> formatNumber ''0.0000001'' = Exponential (Fin (944473296573929 / 2 ^ 73)) 6"
proof -
  have a: "parseFloat ''0.0000001'' = Fin (944473296573929 / 2 ^ 73)" by code_simp
  from formatNumber_finite [OF a] a show ?thesis by simp
qed


section \<open>Backspace while a reset is pending\<close>

text \<open>
  C3: in every state whose reset flag is set, \<^verbatim>\<open>backspace()\<close> gives the state that
  \<^verbatim>\<open>clear()\<close> gives, the four defaults; in particular \<^verbatim>\<open>backspace()\<close> right after a
  \<^verbatim>\<open>calculate()\<close> that had an operation to run is \<^verbatim>\<open>clear()\<close>.
\<close>

theorem backspace_pending_reset_is_clear:
  "(shouldResetScreen st \<longrightarrow> backspace st = clear st \<and> clear st = init_state)
   \<and> (operation st \<noteq> None \<and> previousOperand st \<noteq> '''' \<longrightarrow>
        backspace (fst (equals st)) = clear (fst (equals st)))"
  by (auto simp: backspace_def clear_def reset_init equals_def calculate_def Let_def
      split: option.splits prod.splits)

theorem backspace_pending_reset_is_clear_witness:
  "shouldResetScreen (run [Digit ''3'', Operator op_plus])
   \<and> operation (run [Digit ''3'', Operator op_plus]) \<noteq> None
   \<and> previousOperand (run [Digit ''3'', Operator op_plus]) \<noteq> ''''
   \<and> backspace (run [Digit ''3'', Operator op_plus]) = init_state
   \<and> backspace (fst (equals (run [Digit ''3'', Operator op_plus])))
       = clear (fst (equals (run [Digit ''3'', Operator op_plus])))"
proof -
  have a: "shouldResetScreen (run [Digit ''3'', Operator op_plus])" by code_simp
  have b: "operation (run [Digit ''3'', Operator op_plus]) \<noteq> None" by code_simp
  have c: "previousOperand (run [Digit ''3'', Operator op_plus]) \<noteq> ''''" by code_simp
  from backspace_pending_reset_is_clear [of "run [Digit ''3'', Operator op_plus]"] a b c
  show ?thesis by simp
qed


section \<open>Chaining and operator swap\<close>

text \<open>
  C4: from the initial state, the keys 3, plus, 4, times, 2, equals leave \<^verbatim>\<open>currentOperand\<close>
  at \<^verbatim>\<open>"14"\<close>: the second operator key first folds the pending 3 + 4 into 7, then installs
  the multiplication, so the keys compute (3 + 4) * 2.
\<close>

theorem chaining_folds_left_to_right:
  "run [Digit ''3'', Operator op_plus, Digit ''4'', Operator op_times]
     = \<lparr>currentOperand = ''7'', previousOperand = ''7'', operation = Some op_times,
        shouldResetScreen = True\<rparr>
   \<and> run [Digit ''3'', Operator op_plus, Digit ''4'', Operator op_times, Digit ''2'', Equals]
     = \<lparr>currentOperand = ''14'', previousOperand = '''', operation = None,
        shouldResetScreen = True\<rparr>"
  by code_simp

text \<open>
  C5: from the initial state, the keys 3, plus, minus, 4, equals leave \<^verbatim>\<open>currentOperand\<close>
  at \<^verbatim>\<open>"-1"\<close>: the reset flag is set when the minus key arrives, so nothing is folded and
  only the operator is overwritten.
\<close>

theorem operator_swap_overwrites:
  "run [Digit ''3'', Operator op_plus]
     = \<lparr>currentOperand = ''3'', previousOperand = ''3'', operation = Some op_plus,
        shouldResetScreen = True\<rparr>
   \<and> run [Digit ''3'', Operator op_plus, Operator op_minus]
     = \<lparr>currentOperand = ''3'', previousOperand = ''3'', operation = Some op_minus,
        shouldResetScreen = True\<rparr>
   \<and> run [Digit ''3'', Operator op_plus, Operator op_minus, Digit ''4'', Equals]
     = \<lparr>currentOperand = ''-1'', previousOperand = '''', operation = None,
        shouldResetScreen = True\<rparr>"
  by code_simp


section \<open>Invariants of the state\<close>

text \<open>
  C6: after every run of entry point calls from the initial state, \<^verbatim>\<open>operation\<close> is
  non-null if and only if \<^verbatim>\<open>previousOperand\<close> is non-empty. The operator of an event may
  be any string.
\<close>

theorem operation_iff_previousOperand:
  "\<forall>e \<in> set evs. valid_event e \<Longrightarrow>
     (operation (run evs) \<noteq> None) = (previousOperand (run evs) \<noteq> '''')"
proof -
  assume v: "\<forall>e \<in> set evs. valid_event e"
  have "pending_iff (run_from init_state evs)"
  proof (rule run_from_invariant [where P = pending_iff])
    show "pending_iff init_state" by (simp add: pending_iff_def init_state_def)
    show "\<And>e s. valid_event e \<Longrightarrow> pending_iff s \<Longrightarrow> pending_iff (step e s)"
      by (rule step_pending_iff)
    show "\<forall>e \<in> set evs. valid_event e" by (rule v)
  qed
  then show ?thesis by (simp add: pending_iff_def run_def)
qed

theorem operation_iff_previousOperand_witness:
  "list_all valid_event [Digit ''3'', Operator op_plus, Digit ''4'', Operator op_times]
   \<and> operation (run [Digit ''3'', Operator op_plus, Digit ''4'', Operator op_times]) \<noteq> None
   \<and> previousOperand (run [Digit ''3'', Operator op_plus, Digit ''4'', Operator op_times]) \<noteq> []"
proof -
  have a: "list_all valid_event [Digit ''3'', Operator op_plus, Digit ''4'', Operator op_times]"
    by code_simp
  then have a': "\<forall>e \<in> set [Digit ''3'', Operator op_plus, Digit ''4'', Operator op_times].
      valid_event e"
    by (simp only: list_all_iff)
  have b: "operation (run [Digit ''3'', Operator op_plus, Digit ''4'', Operator op_times]) \<noteq> None"
    by code_simp
  from operation_iff_previousOperand [OF a'] a b show ?thesis by simp
qed

text \<open>
  C7: after every run of entry point calls from the initial state, \<^verbatim>\<open>currentOperand\<close>
  holds at most one decimal point; and in any state, a second \<^verbatim>\<open>appendNumber(".")\<close> right
  after a first one changes nothing.
\<close>

theorem at_most_one_decimal_point:
  "((\<forall>e \<in> set evs. valid_event e) \<longrightarrow> dots (currentOperand (run evs)) \<le> 1)
   \<and> appendNumber ''.'' (appendNumber ''.'' st) = appendNumber ''.'' st"
proof
  show "(\<forall>e \<in> set evs. valid_event e) \<longrightarrow> dots (currentOperand (run evs)) \<le> 1"
  proof
    assume v: "\<forall>e \<in> set evs. valid_event e"
    have "dots (currentOperand (run_from init_state evs)) \<le> 1"
    proof (rule run_from_invariant [where P = "\<lambda>s. dots (currentOperand s) \<le> 1"])
      show "dots (currentOperand init_state) \<le> 1"
        by (simp add: init_state_def dots_Nil dots_Cons)
      show "\<And>e s. valid_event e \<Longrightarrow> dots (currentOperand s) \<le> 1
              \<Longrightarrow> dots (currentOperand (step e s)) \<le> 1"
        by (rule step_dots)
      show "\<forall>e \<in> set evs. valid_event e" by (rule v)
    qed
    then show "dots (currentOperand (run evs)) \<le> 1" by (simp add: run_def)
  qed
  show "appendNumber ''.'' (appendNumber ''.'' st) = appendNumber ''.'' st"
    by (simp add: appendNumber_def Let_def)
qed

theorem at_most_one_decimal_point_witness:
  "list_all valid_event
     [Digit ''1'', Digit ''.'', Digit ''.'', Digit ''5'', Operator op_divide, Digit ''4'', Equals]
   \<and> dots (currentOperand
        (run [Digit ''1'', Digit ''.'', Digit ''.'', Digit ''5'', Operator op_divide, Digit ''4'',
              Equals])) \<le> 1
   \<and> appendNumber ''.'' (appendNumber ''.'' init_state) = appendNumber ''.'' init_state"
proof -
  have a: "list_all valid_event
     [Digit ''1'', Digit ''.'', Digit ''.'', Digit ''5'', Operator op_divide, Digit ''4'', Equals]"
    by code_simp
  then have a': "\<forall>e \<in> set
     [Digit ''1'', Digit ''.'', Digit ''.'', Digit ''5'', Operator op_divide, Digit ''4'', Equals].
       valid_event e"
    by (simp only: list_all_iff)
  from at_most_one_decimal_point
    [of "[Digit ''1'', Digit ''.'', Digit ''.'', Digit ''5'', Operator op_divide, Digit ''4'', Equals]"
        init_state]
    a a' show ?thesis by blast
qed





section \<open>Entering an operand\<close>

text \<open>
  C8: for every sequence of digit tokens with at most one decimal point, entered from the
  initial state, \<^verbatim>\<open>currentOperand\<close> is the concatenation of the tokens under the rule that
  a token other than the decimal point replaces the operand \<^verbatim>\<open>"0"\<close> instead of being
  appended: the fold of \<open>spec_appendDigit\<close> over the tokens, which is \<open>spec_entered\<close>.
\<close>

theorem appendDigit_concatenates:
  assumes "set ts \<subseteq> set tokens"
    and "count_points ts \<le> 1"
  shows "currentOperand (run (map Digit ts)) = foldl spec_appendDigit ''0'' ts
         \<and> currentOperand (run (map Digit ts)) = spec_entered ts"
proof -
  have "currentOperand (run_from init_state (map Digit ts))
          = foldl spec_appendDigit (currentOperand init_state) ts"
    using assms by (intro run_from_digits) (simp_all add: init_state_def dots_Nil dots_Cons)
  then have a: "currentOperand (run (map Digit ts)) = foldl spec_appendDigit ''0'' ts"
    by (simp add: run_def init_state_def)
  have "\<forall>t \<in> set ts. t \<noteq> []"
    using assms(1) tokens_dots(1) by auto
  then have "foldl spec_appendDigit ''0'' ts = spec_entered ts"
    by (rule spec_fold_closed_form)
  with a show ?thesis by simp
qed

theorem appendDigit_concatenates_witness:
  "set [''0'', ''5'', ''.'', ''2''] \<subseteq> set tokens
   \<and> count_points [''0'', ''5'', ''.'', ''2''] \<le> 1
   \<and> currentOperand (run (map Digit [''0'', ''5'', ''.'', ''2''])) = ''5.2''
   \<and> foldl spec_appendDigit ''0'' [''0'', ''5'', ''.'', ''2''] = ''5.2''
   \<and> spec_entered [''0'', ''5'', ''.'', ''2''] = ''5.2''"
proof -
  have a: "set [''0'', ''5'', ''.'', ''2''] \<subseteq> set tokens" by code_simp
  have b: "count_points [''0'', ''5'', ''.'', ''2''] \<le> 1" by code_simp
  have c: "spec_entered [''0'', ''5'', ''.'', ''2''] = ''5.2''" by code_simp
  have d: "foldl spec_appendDigit ''0'' [''0'', ''5'', ''.'', ''2''] = ''5.2''" by code_simp
  from appendDigit_concatenates [OF a b] a b c d show ?thesis by simp
qed


section \<open>The fallbacks of \<^verbatim>\<open>compute\<close>\<close>

text \<open>
  C9: when both operand strings parse as numbers and the operator is none of the four
  symbols, \<^verbatim>\<open>compute\<close> returns the parsed current operand and alerts nothing; when either
  operand string fails to parse, \<^verbatim>\<open>compute\<close> returns 0.
\<close>

theorem compute_fallbacks:
  "(parseFloat prev \<noteq> NaN \<and> parseFloat current \<noteq> NaN
      \<and> operator \<notin> {op_plus, op_minus, op_times, op_divide}
     \<longrightarrow> compute prev current operator = (parseFloat current, []))
   \<and> (parseFloat prev = NaN \<or> parseFloat current = NaN
     \<longrightarrow> compute prev current operator = (Fin 0, []))"
  by (auto simp: compute_def Let_def js_isNaN_def)

theorem compute_fallbacks_witness:
  "parseFloat ''6'' \<noteq> NaN \<and> parseFloat ''3'' \<noteq> NaN
   \<and> ''%'' \<notin> {op_plus, op_minus, op_times, op_divide}
   \<and> compute ''6'' ''3'' ''%'' = (parseFloat ''3'', [])
   \<and> parseFloat ''abc'' = NaN
   \<and> compute ''abc'' ''3'' ''%'' = (Fin 0, [])"
proof -
  have a: "parseFloat ''6'' \<noteq> NaN" by code_simp
  have b: "parseFloat ''3'' \<noteq> NaN" by code_simp
  have c: "''%'' \<notin> {op_plus, op_minus, op_times, op_divide}" by code_simp
  have d: "parseFloat ''abc'' = NaN" by code_simp
  from compute_fallbacks [of "''6''" "''3''" "''%''"]
    compute_fallbacks [of "''abc''" "''3''" "''%''"] a b c d
  show ?thesis by simp
qed

end
